theory Spec2Isabelle
  imports Main "HOL-Library.AList"
begin

text \<open>
  A shallow embedding of the drift-bottle plugin, \<^verbatim>\<open>src/main.py\<close>: its quota store
  (counters per user, the lazy daily reset, the JSON file), its client for the remote
  bottle API, and its command handlers. The clock, the file and the answer of the remote
  API are the arguments of the functions that read them; the plugin object is a record
  that each function returns updated.
\<close>

section \<open>Python strings\<close>

text \<open>
  A Python \<^verbatim>\<open>str\<close> is a sequence of Unicode code points: \<^verbatim>\<open>len\<close>, slicing and
  \<^verbatim>\<open>startswith\<close> all count code points, not bytes. The plugin's texts are mostly
  Chinese, so a string is modelled as the list of its code points. ASCII text is written
  through \<open>ascii\<close>; every other literal of the source is spelled out in hexadecimal.
\<close>

type_synonym pystr = "nat list"

definition ascii :: "string \<Rightarrow> pystr" where
  "ascii s = map of_char s"

fun startswith :: "pystr \<Rightarrow> pystr \<Rightarrow> bool" where
  "startswith s [] = True"
| "startswith [] (p # ps) = False"
| "startswith (c # cs) (p # ps) = (c = p \<and> startswith cs ps)"

definition startswith_any :: "pystr \<Rightarrow> pystr list \<Rightarrow> bool" where
  \<comment> \<open>\<^verbatim>\<open>s.startswith((p1, p2, ...))\<close>\<close>
  "startswith_any s ps = list_ex (startswith s) ps"

fun contains :: "pystr \<Rightarrow> pystr \<Rightarrow> bool" where
  \<comment> \<open>\<^verbatim>\<open>k in s\<close> on two strings: \<open>k\<close> occurs in \<open>s\<close> as a substring\<close>
  "contains [] k = (k = [])"
| "contains (c # cs) k = (startswith (c # cs) k \<or> contains cs k)"

definition isspace :: "nat \<Rightarrow> bool" where
  \<comment> \<open>the code points that \<^verbatim>\<open>str.strip()\<close> removes\<close>
  "isspace c \<longleftrightarrow>
     (0x9 \<le> c \<and> c \<le> 0xD) \<or> (0x1C \<le> c \<and> c \<le> 0x20) \<or> c = 0x85 \<or> c = 0xA0 \<or> c = 0x1680 \<or>
     (0x2000 \<le> c \<and> c \<le> 0x200A) \<or> c = 0x2028 \<or> c = 0x2029 \<or> c = 0x202F \<or> c = 0x205F \<or>
     c = 0x3000"

definition strip :: "pystr \<Rightarrow> pystr" where
  "strip s = rev (dropWhile isspace (rev (dropWhile isspace s)))"

fun split_on :: "nat \<Rightarrow> pystr \<Rightarrow> pystr list" where
  \<comment> \<open>\<^verbatim>\<open>s.split(sep)\<close> for a separator of one code point\<close>
  "split_on sep [] = [[]]"
| "split_on sep (c # cs) =
     (if c = sep then [] # split_on sep cs
      else (case split_on sep cs of [] \<Rightarrow> [[c]] | r # rs \<Rightarrow> (c # r) # rs))"

definition after_first :: "nat \<Rightarrow> pystr \<Rightarrow> pystr" where
  \<comment> \<open>\<^verbatim>\<open>s.split(sep, 1)[1]\<close> on a string that holds the separator\<close>
  "after_first sep s = tl (dropWhile (\<lambda>c. c \<noteq> sep) s)"

fun str_nat :: "nat \<Rightarrow> pystr" where
  "str_nat n = (if n < 10 then [48 + n] else str_nat (n div 10) @ [48 + n mod 10])"

declare str_nat.simps [simp del]

definition str_int :: "int \<Rightarrow> pystr" where
  \<comment> \<open>\<^verbatim>\<open>str(i)\<close>, also what an f-string prints for an int\<close>
  "str_int i = (if i < 0 then 0x2D # str_nat (nat (- i)) else str_nat (nat i))"

subsection \<open>The texts of the source\<close>

definition err_sentinel :: pystr where \<comment> \<open>line 157: the prefix of an error body, three code points\<close>
  "err_sentinel = [0x9519, 0x8BEF, 0xFF1A]"

definition txt_api_error :: pystr where \<comment> \<open>line 157: API error:\<close>
  "txt_api_error = [0x41, 0x50, 0x49, 0x9519, 0x8BEF, 0xFF1A]"

definition txt_dots :: pystr where \<comment> \<open>lines 221 and 271\<close>
  "txt_dots = [0x2E, 0x2E, 0x2E]"

definition txt_op_failed :: pystr where \<comment> \<open>lines 221 and 271: operation failed:\<close>
  "txt_op_failed = [0x274C, 0x20, 0x64CD, 0x4F5C, 0x5931, 0x8D25, 0xFF1A]"

definition pfx_api_error :: pystr where \<comment> \<open>lines 197 and 249: API error\<close>
  "pfx_api_error = [0x41, 0x50, 0x49, 0x9519, 0x8BEF]"

definition pfx_request :: pystr where \<comment> \<open>lines 197 and 249: request\<close>
  "pfx_request = [0x8BF7, 0x6C42]"

definition pfx_call :: pystr where \<comment> \<open>lines 197 and 249: call\<close>
  "pfx_call = [0x8C03, 0x7528]"

definition txt_pick_limit :: pystr where \<comment> \<open>line 191: today's picks are used up / daily cap:\<close>
  "txt_pick_limit = [0x4ECA, 0x65E5, 0x6361, 0x74F6, 0x6B21, 0x6570, 0x5DF2, 0x7528, 0x5C3D,
     0xFF01, 0xA, 0x6BCF, 0x65E5, 0x4E0A, 0x9650, 0xFF1A]"

definition txt_throw_limit :: pystr where \<comment> \<open>line 235: today's throws are used up / daily cap:\<close>
  "txt_throw_limit = [0x4ECA, 0x65E5, 0x6295, 0x74F6, 0x6B21, 0x6570, 0x5DF2, 0x7528,
     0x5C3D, 0xFF01, 0xA, 0x6BCF, 0x65E5, 0x4E0A, 0x9650, 0xFF1A]"

definition txt_limit_end :: pystr where \<comment> \<open>lines 191 and 235: times / reset at 0:00 tomorrow\<close>
  "txt_limit_end = [0x6B21, 0xA, 0x660E, 0x65E5, 0x30, 0x70B9, 0x81EA, 0x52A8, 0x91CD,
     0x7F6E]"

definition txt_pick_failed :: pystr where \<comment> \<open>line 198: pick failed:\<close>
  "txt_pick_failed = [0x274C, 0x20, 0x6361, 0x74F6, 0x5931, 0x8D25, 0xFF1A]"

definition txt_throw_failed :: pystr where \<comment> \<open>line 250: throw failed:\<close>
  "txt_throw_failed = [0x274C, 0x20, 0x6295, 0x74F6, 0x5931, 0x8D25, 0xFF1A]"

definition txt_pick_ok :: pystr where \<comment> \<open>line 208: picked up a bottle\<close>
  "txt_pick_ok = [0x2705, 0x20, 0x6361, 0x5230, 0x6F02, 0x6D41, 0x74F6, 0x5566, 0xFF01,
     0xA]"

definition txt_throw_ok :: pystr where \<comment> \<open>line 260: bottle thrown\<close>
  "txt_throw_ok = [0x2705, 0x20, 0x6F02, 0x6D41, 0x74F6, 0x6295, 0x653E, 0x6210, 0x529F,
     0xFF01, 0xA]"

definition txt_remaining :: pystr where \<comment> \<open>lines 208 and 260: left today:\<close>
  "txt_remaining = [0xA, 0xA, 0x1F4CA, 0x20, 0x4ECA, 0x65E5, 0x5269, 0x4F59, 0xFF1A]"

definition txt_times :: pystr where \<comment> \<open>lines 208 and 260: times\<close>
  "txt_times = [0x6B21]"

definition txt_img_label :: pystr where \<comment> \<open>line 212: the label of the image line, ending in an ASCII colon\<close>
  "txt_img_label = [0x56FE, 0x7247, 0x55, 0x52, 0x4C, 0x3A]"

definition txt_none :: pystr where \<comment> \<open>line 214: none\<close>
  "txt_none = [0x65E0]"

definition txt_throw_invalid :: pystr where \<comment> \<open>line 243: throw failed: text or an image is needed, with an example\<close>
  "txt_throw_invalid = [0x274C, 0x20, 0x6295, 0x653E, 0x5931, 0x8D25, 0xFF1A, 0x9700,
     0x643A, 0x5E26, 0x6587, 0x5B57, 0x5185, 0x5BB9, 0x6216, 0x56FE, 0x7247, 0xFF01, 0xA,
     0x793A, 0x4F8B, 0xFF1A, 0xA, 0x6295, 0x6F02, 0x6D41, 0x74F6, 0x20, 0x4ECA, 0x5929,
     0x5929, 0x6C14, 0x771F, 0x597D, 0xFF5E, 0xA, 0xFF08, 0x53D1, 0x9001, 0x65F6, 0x53EF,
     0x9644, 0x5E26, 0x56FE, 0x7247, 0xFF09]"

definition txt_your_image :: pystr where \<comment> \<open>line 264: the image you threw:\<close>
  "txt_your_image = [0xA, 0x4F60, 0x6295, 0x653E, 0x7684, 0x56FE, 0x7247, 0xFF1A]"

definition txt_stats_head :: pystr where \<comment> \<open>line 282: your bottle statistics of today\<close>
  "txt_stats_head = [0x1F4CA, 0x20, 0x4F60, 0x7684, 0x4ECA, 0x65E5, 0x6F02, 0x6D41, 0x74F6,
     0x7EDF, 0x8BA1, 0xA]"

definition txt_picked :: pystr where \<comment> \<open>lines 283 and 309: picked:\<close>
  "txt_picked = [0x2705, 0x20, 0x5DF2, 0x6361, 0x74F6, 0xFF1A]"

definition txt_thrown :: pystr where \<comment> \<open>lines 284 and 310: thrown:\<close>
  "txt_thrown = [0x2705, 0x20, 0x5DF2, 0x6295, 0x74F6, 0xFF1A]"

definition txt_times_left :: pystr where \<comment> \<open>lines 283 to 310: times (left\<close>
  "txt_times_left = [0x6B21, 0xFF08, 0x5269, 0x4F59]"

definition txt_close :: pystr where \<comment> \<open>lines 283 to 310: the closing bracket\<close>
  "txt_close = [0xFF09]"

definition txt_stats_foot :: pystr where \<comment> \<open>line 285: counts reset at 0:00 every day\<close>
  "txt_stats_foot = [0x1F4CC, 0x20, 0x6B21, 0x6570, 0x6BCF, 0x65E5, 0x30, 0x70B9, 0x81EA,
     0x52A8, 0x91CD, 0x7F6E, 0xFF5E]"

definition txt_query_head :: pystr where \<comment> \<open>line 308: [admin query] QQ\<close>
  "txt_query_head = [0x1F50D, 0x20, 0x3010, 0x7BA1, 0x7406, 0x5458, 0x67E5, 0x8BE2, 0x3011,
     0x51, 0x51]"

definition txt_query_today :: pystr where \<comment> \<open>line 308: statistics of today\<close>
  "txt_query_today = [0x4ECA, 0x65E5, 0x7EDF, 0x8BA1, 0xA]"

definition txt_reset_done_a :: pystr where \<comment> \<open>line 324: reset QQ\<close>
  "txt_reset_done_a = [0x2705, 0x20, 0x5DF2, 0x91CD, 0x7F6E, 0x51, 0x51]"

definition txt_reset_done_b :: pystr where \<comment> \<open>line 324: 's pick/throw counts of today\<close>
  "txt_reset_done_b = [0x7684, 0x4ECA, 0x65E5, 0x6361, 0x2F, 0x6295, 0x74F6, 0x6B21, 0x6570,
     0xFF01]"

definition txt_reset_none_a :: pystr where \<comment> \<open>line 326\<close>
  "txt_reset_none_a = [0x2139, 0xFE0F, 0x20, 0x51, 0x51]"

definition txt_reset_none_b :: pystr where \<comment> \<open>line 326: did nothing today, no reset needed\<close>
  "txt_reset_none_b = [0x4ECA, 0x65E5, 0x672A, 0x64CD, 0x4F5C, 0xFF0C, 0x65E0, 0x9700,
     0x91CD, 0x7F6E, 0xFF5E]"

definition txt_global_head :: pystr where \<comment> \<open>line 340: [admin global statistics] data of today\<close>
  "txt_global_head = [0x1F4CA, 0x20, 0x3010, 0x7BA1, 0x7406, 0x5458, 0x5168, 0x5C40, 0x7EDF,
     0x8BA1, 0x3011, 0x4ECA, 0x65E5, 0x6570, 0x636E, 0xA]"

definition txt_global_users :: pystr where \<comment> \<open>line 341: users:\<close>
  "txt_global_users = [0x1F465, 0x20, 0x53C2, 0x4E0E, 0x7528, 0x6237, 0xFF1A]"

definition txt_global_people :: pystr where \<comment> \<open>line 341: people\<close>
  "txt_global_people = [0x4EBA, 0xA]"

definition txt_global_pick :: pystr where \<comment> \<open>line 342: picks in total:\<close>
  "txt_global_pick = [0x2705, 0x20, 0x603B, 0x6361, 0x74F6, 0xFF1A]"

definition txt_global_throw :: pystr where \<comment> \<open>line 343: throws in total:\<close>
  "txt_global_throw = [0x2705, 0x20, 0x603B, 0x6295, 0x74F6, 0xFF1A]"

definition txt_times_nl :: pystr where \<comment> \<open>lines 342 and 343: times\<close>
  "txt_times_nl = [0x6B21, 0xA]"

definition txt_global_caps_a :: pystr where \<comment> \<open>line 344: caps: pick\<close>
  "txt_global_caps_a = [0x1F4CC, 0x20, 0x4E0A, 0x9650, 0xFF1A, 0x6361]"

definition txt_global_caps_b :: pystr where \<comment> \<open>line 344: per user, throw\<close>
  "txt_global_caps_b = [0x6B21, 0x2F, 0x4EBA, 0xFF0C, 0x6295]"

definition txt_global_caps_c :: pystr where \<comment> \<open>line 344: per user\<close>
  "txt_global_caps_c = [0x6B21, 0x2F, 0x4EBA]"

section \<open>Data model\<close>

text \<open>
  The counters of one user, \<^verbatim>\<open>{"pick": n, "throw": m}\<close>, and the store
  \<^verbatim>\<open>{"last_reset_date": d, "users": {...}}\<close>. Python's ints are unbounded. A dict
  keeps its keys in insertion order and \<^verbatim>\<open>json.dump\<close> writes them in that order, so
  \<open>users\<close> is an association list: \<open>map_of\<close> reads it, \<open>AList.update\<close> overwrites a key
  in place and appends a new one. The quota operations and the handlers are modelled on
  stores of this shape, the one the source documents and writes; the loader is modelled
  on raw JSON values, since it is the loader that decides which values it accepts.
\<close>

record quota =
  pick :: int
  throw :: int

record store =
  last_reset_date :: pystr
  users :: "(pystr \<times> quota) list"

text \<open>What \<^verbatim>\<open>json.load\<close> can return, and what \<^verbatim>\<open>json.dump\<close> writes for a store.
  A float is kept as an opaque pair; nothing below looks inside it.\<close>

datatype json =
    JNull
  | JBool bool
  | JInt int
  | JFloat int int
  | JStr pystr
  | JArr "json list"
  | JObj "(pystr \<times> json) list"

definition quota_to_json :: "quota \<Rightarrow> json" where
  "quota_to_json q = JObj [(ascii ''pick'', JInt (pick q)), (ascii ''throw'', JInt (throw q))]"

definition store_to_json :: "store \<Rightarrow> json" where
  "store_to_json d =
     JObj [(ascii ''last_reset_date'', JStr (last_reset_date d)),
           (ascii ''users'', JObj (map (\<lambda>(k, q). (k, quota_to_json q)) (users d)))]"

text \<open>
  The file \<^verbatim>\<open>user_data.json\<close>: absent, present with content on which \<^verbatim>\<open>json.load\<close>
  raises, or present with content that parses to a value. Writing a value with
  \<^verbatim>\<open>json.dump\<close> leaves content that parses back to it.
\<close>

datatype file_state = Missing | Unreadable | Content json

datatype py_error = TypeError

text \<open>The plugin configuration owned by the host; a key may be absent.\<close>

record config =
  cfg_api_key :: "pystr option"
  cfg_daily_pick_limit :: "int option"
  cfg_daily_throw_limit :: "int option"
  cfg_api_timeout :: "int option"

definition cfg_get :: "'a option \<Rightarrow> 'a \<Rightarrow> 'a" where
  \<comment> \<open>\<^verbatim>\<open>config.get(key, default)\<close>\<close>
  "cfg_get v d = (case v of None \<Rightarrow> d | Some x \<Rightarrow> x)"

text \<open>One outbound GET: its query parameters in order, and the total timeout of the
  session that sends it.\<close>

record request =
  req_params :: "(string \<times> pystr) list"
  req_timeout :: int

text \<open>
  The plugin object. \<open>session_timeout\<close> is the \<^verbatim>\<open>ClientTimeout(total=...)\<close> of
  \<^verbatim>\<open>self.session\<close>; \<open>disk\<close> is the file at \<^verbatim>\<open>self.user_data_path\<close>; \<open>saves\<close> counts
  the calls of \<^verbatim>\<open>_save_user_data_sync\<close>, \<open>config_saves\<close> those of
  \<^verbatim>\<open>config.save_config\<close>, and \<open>requests\<close> lists the GETs sent so far, oldest first.
\<close>

record plugin =
  config :: config
  session_timeout :: int
  api_key :: pystr
  daily_pick_limit :: int
  daily_throw_limit :: int
  api_timeout :: int
  config_saves :: nat
  user_data :: store
  disk :: file_state
  saves :: nat
  requests :: "request list"

text \<open>Message components and the two kinds of reply a handler yields.\<close>

datatype comp = Plain pystr | Image pystr | OtherComp

datatype reply = plain_result pystr | chain_result "comp list"

record event =
  sender_id :: pystr
  message :: "comp list"

text \<open>What the GET ends in: the text of a 2xx response, or an exception raised inside
  the \<^verbatim>\<open>try\<close> (a timeout, a connection failure, a 4xx or 5xx status through
  \<^verbatim>\<open>raise_for_status\<close>, anything else).\<close>

datatype http_outcome = Body pystr | Raised

section \<open>Start-up\<close>

definition init_aiohttp_session :: "plugin \<Rightarrow> plugin" where
  "init_aiohttp_session p = p\<lparr>session_timeout := cfg_get (cfg_api_timeout (config p)) 8\<rparr>"

definition init_config :: "plugin \<Rightarrow> plugin" where
  "init_config p =
     (let c = config p;
          p1 = p\<lparr>api_key := strip (cfg_get (cfg_api_key c) []),
                 daily_pick_limit := max 1 (cfg_get (cfg_daily_pick_limit c) 10),
                 daily_throw_limit := max 1 (cfg_get (cfg_daily_throw_limit c) 5),
                 api_timeout := max 3 (cfg_get (cfg_api_timeout c) 8)\<rparr>
      in if cfg_daily_pick_limit c \<noteq> Some (daily_pick_limit p1)
         then p1\<lparr>config := c\<lparr>cfg_daily_pick_limit := Some (daily_pick_limit p1)\<rparr>,
                 config_saves := Suc (config_saves p1)\<rparr>
         else p1)"

definition get_default_user_data :: "pystr \<Rightarrow> store" where
  "get_default_user_data today = \<lparr>last_reset_date = today, users = []\<rparr>"

section \<open>Persistence\<close>

definition save_user_data_sync :: "json \<Rightarrow> file_state" where
  \<comment> \<open>the file is opened with mode w: the old content is gone\<close>
  "save_user_data_sync data = Content data"

definition py_in :: "pystr \<Rightarrow> json \<Rightarrow> py_error + bool" where
  \<comment> \<open>\<^verbatim>\<open>k in data\<close> for a string \<open>k\<close>: a key of a dict, an element of a list, a
      substring of a string, and a TypeError on anything else\<close>
  "py_in k data =
     (case data of
        JObj kvs \<Rightarrow> Inr (k \<in> set (map fst kvs))
      | JArr xs \<Rightarrow> Inr (JStr k \<in> set xs)
      | JStr s \<Rightarrow> Inr (contains s k)
      | _ \<Rightarrow> Inl TypeError)"

definition load_user_data :: "pystr \<Rightarrow> file_state \<Rightarrow> json \<times> file_state" where
  \<comment> \<open>returns the loaded data and the file as it is left\<close>
  "load_user_data today file =
     (let default_data = store_to_json (get_default_user_data today) in
      case file of
        Missing \<Rightarrow> (default_data, save_user_data_sync default_data)
      | Unreadable \<Rightarrow> (default_data, save_user_data_sync default_data)
      | Content data \<Rightarrow>
          (case py_in (ascii ''last_reset_date'') data of
             Inl e \<Rightarrow> (default_data, save_user_data_sync default_data)
           | Inr False \<Rightarrow> (default_data, save_user_data_sync default_data)
           | Inr True \<Rightarrow> (data, file)))"

definition save_user_data :: "store \<Rightarrow> plugin \<Rightarrow> plugin" where
  "save_user_data data p =
     p\<lparr>disk := save_user_data_sync (store_to_json data), saves := Suc (saves p)\<rparr>"

section \<open>Quota store\<close>

text \<open>The current date, \<^verbatim>\<open>time.strftime("%Y-%m-%d")\<close>, is the argument \<open>today\<close>.\<close>

definition check_reset_data :: "pystr \<Rightarrow> plugin \<Rightarrow> plugin" where
  "check_reset_data today p =
     (if last_reset_date (user_data p) \<noteq> today
      then let p1 = p\<lparr>user_data := (user_data p)\<lparr>last_reset_date := today, users := []\<rparr>\<rparr>
           in save_user_data (user_data p1) p1
      else p)"

definition get_user_count :: "pystr \<Rightarrow> pystr \<Rightarrow> plugin \<Rightarrow> quota \<times> plugin" where
  \<comment> \<open>the record returned is the one stored under \<open>qq_id\<close> in the returned plugin\<close>
  "get_user_count today qq_id p =
     (let p1 = check_reset_data today p in
      case map_of (users (user_data p1)) qq_id of
        None \<Rightarrow>
          (let zero = \<lparr>pick = 0, throw = 0\<rparr>;
               p2 = p1\<lparr>user_data :=
                      (user_data p1)\<lparr>users := AList.update qq_id zero (users (user_data p1))\<rparr>\<rparr>
           in (zero, save_user_data (user_data p2) p2))
      | Some user_count \<Rightarrow> (user_count, p1))"

section \<open>Bottle client\<close>

definition truthy :: "pystr option \<Rightarrow> bool" where
  \<comment> \<open>\<^verbatim>\<open>if image_url:\<close> on a value that is None or a string\<close>
  "truthy u = (case u of None \<Rightarrow> False | Some s \<Rightarrow> s \<noteq> [])"

definition build_params ::
  "pystr \<Rightarrow> pystr \<Rightarrow> pystr \<Rightarrow> pystr option \<Rightarrow> plugin \<Rightarrow> (string \<times> pystr) list" where
  "build_params action qq_id content image_url p =
     [(''id'', qq_id), (''key'', api_key p), (''type'', ascii ''text'')] @
     (if action = ascii ''throw''
      then (if content \<noteq> [] then [(''character'', content)] else []) @
           (case image_url of
              Some u \<Rightarrow> if u \<noteq> [] then [(''url'', u)] else []
            | None \<Rightarrow> [])
      else [])"

definition parse_response :: "pystr \<Rightarrow> pystr" where
  \<comment> \<open>lines 154 to 157, on the text of a 2xx response\<close>
  "parse_response body =
     (let result = strip body in
      if \<not> startswith result err_sentinel then result else txt_api_error @ drop 4 result)"

definition session_get :: "(string \<times> pystr) list \<Rightarrow> plugin \<Rightarrow> plugin" where
  \<comment> \<open>\<^verbatim>\<open>self.session.get(api_url, params=params)\<close>: one more GET is on the wire\<close>
  "session_get params p =
     p\<lparr>requests := requests p @ [\<lparr>req_params = params, req_timeout = session_timeout p\<rparr>]\<rparr>"

text \<open>
  The first \<^verbatim>\<open>except\<close> clause of the client names \<^verbatim>\<open>aiohttp.ClientTimeout\<close>, the
  settings class that line 51 constructs, which is no exception class. Python matches
  a raised exception against the clauses in order, and matching against a class that
  does not inherit from \<^verbatim>\<open>BaseException\<close> raises a TypeError. So whatever is raised
  inside the \<^verbatim>\<open>try\<close>, the client raises that TypeError, and none of the four
  \<^verbatim>\<open>return\<close> statements of lines 159 to 167 is reached: the client returns a
  string only for a 2xx response.
\<close>

definition txt_catch_error :: pystr where
  \<comment> \<open>\<^verbatim>\<open>str(e)\<close> of that TypeError\<close>
  "txt_catch_error =
     ascii ''catching classes that do not inherit from BaseException is not allowed''"

definition call_bottle_api ::
  "pystr \<Rightarrow> pystr \<Rightarrow> pystr \<Rightarrow> pystr option \<Rightarrow> http_outcome \<Rightarrow> plugin
     \<Rightarrow> (py_error + pystr) \<times> plugin" where
  \<comment> \<open>\<open>resp\<close> is what the one GET of this call ends in\<close>
  "call_bottle_api action qq_id content image_url resp p =
     (let params = build_params action qq_id content image_url p;
          p1 = session_get params p
      in (case resp of
            Body body \<Rightarrow> Inr (parse_response body)
          | Raised \<Rightarrow> Inl TypeError,
          p1))"

definition http_prefixes :: "pystr list" where
  "http_prefixes = [ascii ''http://'', ascii ''https://'']"

fun first_image_url :: "comp list \<Rightarrow> pystr option" where
  "first_image_url [] = None"
| "first_image_url (Image url # cs) =
     (if startswith_any url http_prefixes then Some url else first_image_url cs)"
| "first_image_url (c # cs) = first_image_url cs"

definition extract_image_url :: "event \<Rightarrow> pystr option" where
  "extract_image_url ev = first_image_url (message ev)"

section \<open>Command handlers\<close>

text \<open>
  A handler takes the current date, what its GET (if it sends one) ends in, the event
  and the plugin, and returns its reply and the plugin as it leaves it. The record
  \<^verbatim>\<open>user_count\<close> of the source is the dict stored under the sender's id, so
  \<^verbatim>\<open>user_count["pick"] += 1\<close> changes the store; here the entry is overwritten.
  Handlers run one at a time, the file can always be written, and the host's own calls
  do not raise, so the \<^verbatim>\<open>except\<close> branch of a handler is reached from the client
  only: it replies with the first thirty characters of the text of the TypeError.
\<close>

definition handler_failed :: "py_error \<Rightarrow> reply" where
  \<comment> \<open>lines 219 to 221 and 269 to 271, for the one exception that gets there\<close>
  "handler_failed e =
     (case e of TypeError \<Rightarrow> plain_result (txt_op_failed @ take 30 txt_catch_error @ txt_dots))"

definition failure_prefixes :: "pystr list" where
  "failure_prefixes = [pfx_api_error, pfx_request, pfx_call]"

definition set_user :: "pystr \<Rightarrow> quota \<Rightarrow> plugin \<Rightarrow> plugin" where
  \<comment> \<open>\<^verbatim>\<open>self.user_data["users"][qq_id] = r\<close>\<close>
  "set_user qq_id r p =
     p\<lparr>user_data := (user_data p)\<lparr>users := AList.update qq_id r (users (user_data p))\<rparr>\<rparr>"

definition picked_image :: "pystr \<Rightarrow> comp list" where
  \<comment> \<open>lines 211 to 216: the first line with the image label decides\<close>
  "picked_image api_result =
     (case find (\<lambda>line. startswith line txt_img_label) (split_on 0xA api_result) of
        None \<Rightarrow> []
      | Some line \<Rightarrow>
          (let img_url = strip (after_first 0x3A line) in
           if img_url \<noteq> txt_none \<and> startswith_any img_url http_prefixes
           then [Image img_url] else []))"

definition handle_pick :: "pystr \<Rightarrow> http_outcome \<Rightarrow> event \<Rightarrow> plugin \<Rightarrow> reply \<times> plugin" where
  "handle_pick today resp ev p =
     (let qq_id = sender_id ev;
          (user_count, p1) = get_user_count today qq_id p
      in if pick user_count \<ge> daily_pick_limit p1
         then (plain_result (txt_pick_limit @ str_int (daily_pick_limit p1) @ txt_limit_end), p1)
         else
           (let (res, p2) = call_bottle_api (ascii ''pick'') qq_id [] (Some []) resp p1
            in case res of
                 Inl e \<Rightarrow> (handler_failed e, p2)
               | Inr api_result \<Rightarrow>
                   if startswith_any api_result failure_prefixes
                   then (plain_result (txt_pick_failed @ api_result), p2)
                   else
                     (let user_count' = user_count\<lparr>pick := pick user_count + 1\<rparr>;
                          p3 = set_user qq_id user_count' p2;
                          p4 = save_user_data (user_data p3) p3;
                          remaining = daily_pick_limit p4 - pick user_count'
                      in (chain_result
                            (Plain (txt_pick_ok @ api_result @ txt_remaining
                                    @ str_int remaining @ txt_times) # picked_image api_result),
                          p4))))"

definition handle_throw ::
  "pystr \<Rightarrow> http_outcome \<Rightarrow> event \<Rightarrow> pystr \<Rightarrow> plugin \<Rightarrow> reply \<times> plugin" where
  "handle_throw today resp ev content p =
     (let qq_id = sender_id ev;
          (user_count, p1) = get_user_count today qq_id p
      in if throw user_count \<ge> daily_throw_limit p1
         then (plain_result (txt_throw_limit @ str_int (daily_throw_limit p1) @ txt_limit_end), p1)
         else
           (let image_url = extract_image_url ev
            in if content = [] \<and> \<not> truthy image_url
               then (plain_result txt_throw_invalid, p1)
               else
                 (let (res, p2) =
                        call_bottle_api (ascii ''throw'') qq_id content image_url resp p1
                  in case res of
                       Inl e \<Rightarrow> (handler_failed e, p2)
                     | Inr api_result \<Rightarrow>
                         if startswith_any api_result failure_prefixes
                         then (plain_result (txt_throw_failed @ api_result), p2)
                         else
                           (let user_count' = user_count\<lparr>throw := throw user_count + 1\<rparr>;
                                p3 = set_user qq_id user_count' p2;
                                p4 = save_user_data (user_data p3) p3;
                                remaining = daily_throw_limit p4 - throw user_count'
                            in (chain_result
                                  (Plain (txt_throw_ok @ api_result @ txt_remaining
                                          @ str_int remaining @ txt_times) #
                                   (case image_url of
                                      Some u \<Rightarrow>
                                        if u \<noteq> [] then [Plain txt_your_image, Image u]
                                        else []
                                    | None \<Rightarrow> [])),
                                p4)))))"

definition stats_lines :: "quota \<Rightarrow> plugin \<Rightarrow> pystr" where
  \<comment> \<open>the two counter lines that the personal and the admin statistics share\<close>
  "stats_lines user_count p =
     txt_picked @ str_int (pick user_count) @ ascii ''/'' @ str_int (daily_pick_limit p)
       @ txt_times_left @ str_int (daily_pick_limit p - pick user_count) @ txt_close @ [0xA]
     @ txt_thrown @ str_int (throw user_count) @ ascii ''/'' @ str_int (daily_throw_limit p)
       @ txt_times_left @ str_int (daily_throw_limit p - throw user_count) @ txt_close"

definition handle_my_stats :: "pystr \<Rightarrow> event \<Rightarrow> plugin \<Rightarrow> reply \<times> plugin" where
  "handle_my_stats today ev p =
     (let qq_id = sender_id ev;
          (user_count, p1) = get_user_count today qq_id p
      in (plain_result (txt_stats_head @ stats_lines user_count p1 @ [0xA] @ txt_stats_foot),
          p1))"

section \<open>Admin commands\<close>

definition admin_query :: "event \<Rightarrow> pystr \<Rightarrow> plugin \<Rightarrow> reply \<times> plugin" where
  "admin_query ev target_qq p =
     (let target = strip target_qq;
          user_count = (case map_of (users (user_data p)) target of
                          None \<Rightarrow> \<lparr>pick = 0, throw = 0\<rparr>
                        | Some r \<Rightarrow> r)
      in (plain_result (txt_query_head @ target @ txt_query_today @ stats_lines user_count p),
          p))"

definition admin_reset :: "event \<Rightarrow> pystr \<Rightarrow> plugin \<Rightarrow> reply \<times> plugin" where
  "admin_reset ev target_qq p =
     (let target = strip target_qq
      in if target \<in> set (map fst (users (user_data p)))
         then (let p1 = set_user target \<lparr>pick = 0, throw = 0\<rparr> p
               in (plain_result (txt_reset_done_a @ target @ txt_reset_done_b),
                   save_user_data (user_data p1) p1))
         else (plain_result (txt_reset_none_a @ target @ txt_reset_none_b), p))"

definition admin_global :: "event \<Rightarrow> plugin \<Rightarrow> reply \<times> plugin" where
  "admin_global ev p =
     (let us = users (user_data p);
          total_users = int (length us);
          total_pick = sum_list (map (\<lambda>(k, u). pick u) us);
          total_throw = sum_list (map (\<lambda>(k, u). throw u) us)
      in (plain_result
            (txt_global_head @ txt_global_users @ str_int total_users @ txt_global_people
             @ txt_global_pick @ str_int total_pick @ txt_times_nl
             @ txt_global_throw @ str_int total_throw @ txt_times_nl
             @ txt_global_caps_a @ str_int (daily_pick_limit p) @ txt_global_caps_b
             @ str_int (daily_throw_limit p) @ txt_global_caps_c),
          p))"

section \<open>Comparing two plugin states\<close>

definition same_store :: "plugin \<Rightarrow> plugin \<Rightarrow> bool" where
  \<comment> \<open>no counter changed and nothing was persisted between the two: the store in
      memory, the file and the number of saves agree\<close>
  "same_store a b \<longleftrightarrow> user_data a = user_data b \<and> disk a = disk b \<and> saves a = saves b"

section \<open>Example states\<close>

text \<open>
  The plugin before \<^verbatim>\<open>__init__\<close> has set anything, for a configuration and a store,
  and the plugin as the two initialisers leave it. The store of the examples is the one
  of Scenario B: user \<^verbatim>\<open>u1\<close> with three picks and one throw on 2020-01-01.
\<close>

definition blank_plugin :: "config \<Rightarrow> store \<Rightarrow> plugin" where
  "blank_plugin c d =
     \<lparr>config = c, session_timeout = 0, api_key = [], daily_pick_limit = 0,
      daily_throw_limit = 0, api_timeout = 0, config_saves = 0, user_data = d,
      disk = Content (store_to_json d), saves = 0, requests = []\<rparr>"

definition start_plugin :: "config \<Rightarrow> store \<Rightarrow> plugin" where
  "start_plugin c d = init_config (init_aiohttp_session (blank_plugin c d))"

definition day1 :: pystr where
  "day1 = ascii ''2020-01-01''"

definition day2 :: pystr where
  "day2 = ascii ''2020-01-02''"

definition u1 :: pystr where
  "u1 = ascii ''u1''"

definition u2 :: pystr where
  "u2 = ascii ''u2''"

definition store_b :: store where
  "store_b = \<lparr>last_reset_date = day1, users = [(u1, \<lparr>pick = 3, throw = 1\<rparr>)]\<rparr>"

definition config_b :: "int option \<Rightarrow> config" where
  \<comment> \<open>pick cap 3, throw cap 5, and the given \<^verbatim>\<open>api_timeout\<close>\<close>
  "config_b t =
     \<lparr>cfg_api_key = Some (ascii ''k''), cfg_daily_pick_limit = Some 3,
      cfg_daily_throw_limit = Some 5, cfg_api_timeout = t\<rparr>"

definition plugin_b :: plugin where
  "plugin_b = start_plugin (config_b (Some 1)) store_b"

definition event_of :: "pystr \<Rightarrow> event" where
  \<comment> \<open>a message of the given sender that carries no image\<close>
  "event_of qq = \<lparr>sender_id = qq, message = [Plain []]\<rparr>"

definition body_bad_key :: pystr where
  \<comment> \<open>an error body: the sentinel, then a four-character message (the key is invalid)\<close>
  "body_bad_key = err_sentinel @ [0x5BC6, 0x94A5, 0x65E0, 0x6548]"

definition body_request :: pystr where
  \<comment> \<open>a bottle whose text begins with the two characters of \<open>pfx_request\<close>\<close>
  "body_request = pfx_request @ ascii '' a reply''"

definition file_no_users :: json where
  \<comment> \<open>a file with the date and no \<^verbatim>\<open>users\<close> key\<close>
  "file_no_users = JObj [(ascii ''last_reset_date'', JStr day1)]"

definition file_old_format :: json where
  \<comment> \<open>a file with \<^verbatim>\<open>users\<close> and no date\<close>
  "file_old_format = JObj [(ascii ''users'', JObj [])]"

section \<open>Strings: basic facts\<close>

lemma startswith_iff: "startswith s p \<longleftrightarrow> take (length p) s = p"
  by (induction s p rule: startswith.induct) auto

lemma startswith_append: "startswith (p @ s) p"
  by (simp add: startswith_iff)

lemma startswith_decompose: "startswith s p \<Longrightarrow> s = p @ drop (length p) s"
  by (metis append_take_drop_id startswith_iff)

text \<open>Stripping keeps a prefix that neither begins nor ends with white space.\<close>

lemma strip_keeps_prefix:
  assumes "startswith s p" and "p \<noteq> []" and "\<not> isspace (hd p)" and "\<not> isspace (last p)"
  shows "startswith (strip s) p"
proof -
  obtain r where s: "s = p @ r"
    using startswith_decompose [OF assms(1)] by blast
  have front: "dropWhile isspace s = s"
    using assms(2,3) by (cases p) (simp_all add: s)
  have rear: "dropWhile isspace (rev p) = rev p"
    using assms(2,4) by (cases "rev p") (auto simp: last_rev [symmetric] simp del: last_rev)
  have "dropWhile isspace (rev r @ rev p) = rev p \<or>
        dropWhile isspace (rev r @ rev p) = dropWhile isspace (rev r) @ rev p"
    by (simp add: dropWhile_append rear)
  moreover have "strip s = rev (dropWhile isspace (rev r @ rev p))"
    unfolding strip_def front by (simp add: s)
  ultimately have "strip s = p \<or> strip s = p @ rev (dropWhile isspace (rev r))"
    by auto
  then show ?thesis
    using startswith_append [of p] startswith_append [of p "[]"] by auto
qed

lemma strip_keeps_sentinel:
  "startswith body err_sentinel \<Longrightarrow> startswith (strip body) err_sentinel"
  by (rule strip_keeps_prefix) (simp_all add: err_sentinel_def isspace_def)

section \<open>Quota store: basic facts\<close>

lemma update_absent: "map_of al k = None \<Longrightarrow> AList.update k v al = al @ [(k, v)]"
  by (induction al) (auto split: if_splits)

lemma store_overwrite:
  "(d::store)\<lparr>last_reset_date := t, users := us\<rparr> = \<lparr>last_reset_date = t, users = us\<rparr>"
  by (cases d) simp

lemma check_reset_data_date:
  "last_reset_date (user_data (check_reset_data today p)) = today"
  by (simp add: check_reset_data_def save_user_data_def Let_def)

lemma check_reset_data_same_day:
  "last_reset_date (user_data p) = today \<Longrightarrow> check_reset_data today p = p"
  by (simp add: check_reset_data_def)

lemma check_reset_data_new_day:
  "last_reset_date (user_data p) \<noteq> today \<Longrightarrow>
   check_reset_data today p =
     p\<lparr>user_data := \<lparr>last_reset_date = today, users = []\<rparr>,
       disk := Content (store_to_json \<lparr>last_reset_date = today, users = []\<rparr>),
       saves := Suc (saves p)\<rparr>"
  by (simp add: check_reset_data_def save_user_data_def save_user_data_sync_def Let_def
      store_overwrite)

lemma check_reset_data_frame:
  "requests (check_reset_data today p) = requests p"
  "daily_pick_limit (check_reset_data today p) = daily_pick_limit p"
  "daily_throw_limit (check_reset_data today p) = daily_throw_limit p"
  "session_timeout (check_reset_data today p) = session_timeout p"
  by (simp_all add: check_reset_data_def save_user_data_def Let_def)

lemma get_user_count_frame:
  "requests (snd (get_user_count today qq p)) = requests p"
  "daily_pick_limit (snd (get_user_count today qq p)) = daily_pick_limit p"
  "daily_throw_limit (snd (get_user_count today qq p)) = daily_throw_limit p"
  "session_timeout (snd (get_user_count today qq p)) = session_timeout p"
  by (simp_all add: get_user_count_def save_user_data_def Let_def check_reset_data_frame
      split: option.splits)

lemma get_user_count_date:
  "last_reset_date (user_data (snd (get_user_count today qq p))) = today"
  by (simp add: get_user_count_def save_user_data_def Let_def check_reset_data_date
      split: option.splits)

lemma get_user_count_lookup:
  "map_of (users (user_data (snd (get_user_count today qq p)))) qq
     = Some (fst (get_user_count today qq p))"
  by (simp add: get_user_count_def save_user_data_def Let_def AList.update_conv'
      split: option.splits)

text \<open>A user already seen today: the quota access changes nothing at all.\<close>

lemma get_user_count_known:
  "last_reset_date (user_data p) = today \<Longrightarrow> map_of (users (user_data p)) qq = Some r \<Longrightarrow>
   get_user_count today qq p = (r, p)"
  by (simp add: get_user_count_def check_reset_data_same_day)

text \<open>After a reset, or for a user not seen today, the counters read are zero. So
  counters that are not zero were read from an unchanged plugin.\<close>

lemma get_user_count_fresh:
  "last_reset_date (user_data p) \<noteq> today \<or> map_of (users (user_data p)) qq = None \<Longrightarrow>
   fst (get_user_count today qq p) = \<lparr>pick = 0, throw = 0\<rparr>"
  by (auto simp add: get_user_count_def check_reset_data_def save_user_data_def Let_def
      split: option.splits)

lemma get_user_count_nonzero:
  assumes "fst (get_user_count today qq p) \<noteq> \<lparr>pick = 0, throw = 0\<rparr>"
  shows "get_user_count today qq p = (fst (get_user_count today qq p), p)"
    and "last_reset_date (user_data p) = today"
    and "map_of (users (user_data p)) qq = Some (fst (get_user_count today qq p))"
proof -
  have d: "last_reset_date (user_data p) = today"
    using assms get_user_count_fresh [of p today qq] by blast
  have "map_of (users (user_data p)) qq \<noteq> None"
    using assms get_user_count_fresh [of p today qq] by blast
  then obtain r where r: "map_of (users (user_data p)) qq = Some r" by blast
  from get_user_count_known [OF d r]
  show "get_user_count today qq p = (fst (get_user_count today qq p), p)"
    and "map_of (users (user_data p)) qq = Some (fst (get_user_count today qq p))"
    using r by simp_all
  show "last_reset_date (user_data p) = today" by (rule d)
qed

lemma get_user_count_result:
  assumes "get_user_count today qq p = (user_count, p1)"
  shows "map_of (users (user_data p1)) qq = Some user_count"
    and "last_reset_date (user_data p1) = today"
    and "requests p1 = requests p"
    and "last_reset_date (user_data p) = today \<and> map_of (users (user_data p)) qq \<noteq> None
           \<longrightarrow> p1 = p"
  using assms get_user_count_lookup [of today qq p] get_user_count_date [of today qq p]
    get_user_count_frame(1) [of today qq p] get_user_count_known [of p today qq]
  by auto

section \<open>Bottle client and handlers: basic facts\<close>

lemma same_store_session_get: "same_store (session_get params p) p"
  by (simp add: same_store_def session_get_def)

lemma parse_response_plain:
  "\<not> startswith (strip body) err_sentinel \<Longrightarrow> parse_response body = strip body"
  by (simp add: parse_response_def)

lemma parse_response_error:
  "startswith (strip body) err_sentinel \<Longrightarrow>
   parse_response body = txt_api_error @ drop 4 (strip body)"
  by (simp add: parse_response_def)

lemma call_bottle_api_state:
  "snd (call_bottle_api action qq content image_url resp p)
     = session_get (build_params action qq content image_url p) p"
  by (simp add: call_bottle_api_def Let_def)

lemma call_bottle_api_body:
  "fst (call_bottle_api action qq content image_url (Body body) p) = Inr (parse_response body)"
  by (simp add: call_bottle_api_def Let_def)

lemma call_bottle_api_raised:
  "fst (call_bottle_api action qq content image_url Raised p) = Inl TypeError"
  by (simp add: call_bottle_api_def Let_def)

text \<open>The client returns a string for a 2xx response only.\<close>

lemma call_bottle_api_returns:
  "fst (call_bottle_api action qq content image_url resp p) = Inr s \<longleftrightarrow>
     (\<exists>body. resp = Body body \<and> s = parse_response body)"
  by (cases resp) (auto simp add: call_bottle_api_def Let_def)

lemma failure_prefix_cases:
  "startswith_any s failure_prefixes \<longleftrightarrow>
     startswith s pfx_api_error \<or> startswith s pfx_request \<or> startswith s pfx_call"
  by (simp add: startswith_any_def failure_prefixes_def)

lemma api_error_is_failure: "startswith_any (txt_api_error @ s) failure_prefixes"
  by (simp add: failure_prefix_cases txt_api_error_def pfx_api_error_def)

text \<open>The branches of the two handlers that end before any counter is touched.\<close>

lemma handle_pick_limit:
  assumes "get_user_count today (sender_id ev) p = (user_count, p1)"
    and "daily_pick_limit p \<le> pick user_count"
  shows "handle_pick today resp ev p =
           (plain_result (txt_pick_limit @ str_int (daily_pick_limit p) @ txt_limit_end), p1)"
  using assms get_user_count_frame(2) [of today "sender_id ev" p]
  by (simp add: handle_pick_def Let_def)

lemma handle_pick_failed:
  assumes "get_user_count today (sender_id ev) p = (user_count, p1)"
    and "pick user_count < daily_pick_limit p"
    and "fst (call_bottle_api (ascii ''pick'') (sender_id ev) [] (Some []) resp p1)
           = Inr api_result"
    and "startswith_any api_result failure_prefixes"
  shows "handle_pick today resp ev p =
           (plain_result (txt_pick_failed @ api_result),
            session_get (build_params (ascii ''pick'') (sender_id ev) [] (Some []) p1) p1)"
  using assms get_user_count_frame(2) [of today "sender_id ev" p]
    call_bottle_api_state [of "ascii ''pick''" "sender_id ev" "[]" "Some []" resp p1]
  by (simp add: handle_pick_def Let_def split_def)

lemma handle_pick_raised:
  assumes "get_user_count today (sender_id ev) p = (user_count, p1)"
    and "pick user_count < daily_pick_limit p"
  shows "handle_pick today Raised ev p =
           (plain_result (txt_op_failed @ take 30 txt_catch_error @ txt_dots),
            session_get (build_params (ascii ''pick'') (sender_id ev) [] (Some []) p1) p1)"
  using assms get_user_count_frame(2) [of today "sender_id ev" p]
  by (simp add: handle_pick_def Let_def call_bottle_api_def handler_failed_def)

lemma handle_throw_invalid:
  assumes "get_user_count today (sender_id ev) p = (user_count, p1)"
    and "throw user_count < daily_throw_limit p"
    and "content = []" and "\<not> truthy (extract_image_url ev)"
  shows "handle_throw today resp ev content p = (plain_result txt_throw_invalid, p1)"
  using assms get_user_count_frame(3) [of today "sender_id ev" p]
  by (simp add: handle_throw_def Let_def)

lemma handle_throw_failed:
  assumes "get_user_count today (sender_id ev) p = (user_count, p1)"
    and "throw user_count < daily_throw_limit p"
    and "content \<noteq> [] \<or> truthy (extract_image_url ev)"
    and "fst (call_bottle_api (ascii ''throw'') (sender_id ev) content
                (extract_image_url ev) resp p1) = Inr api_result"
    and "startswith_any api_result failure_prefixes"
  shows "handle_throw today resp ev content p =
           (plain_result (txt_throw_failed @ api_result),
            session_get
              (build_params (ascii ''throw'') (sender_id ev) content (extract_image_url ev) p1)
              p1)"
  using assms get_user_count_frame(3) [of today "sender_id ev" p]
    call_bottle_api_state [of "ascii ''throw''" "sender_id ev" content "extract_image_url ev"
      resp p1]
  by (auto simp add: handle_throw_def Let_def split_def)

lemma handle_throw_raised:
  assumes "get_user_count today (sender_id ev) p = (user_count, p1)"
    and "throw user_count < daily_throw_limit p"
    and "content \<noteq> [] \<or> truthy (extract_image_url ev)"
  shows "handle_throw today Raised ev content p =
           (plain_result (txt_op_failed @ take 30 txt_catch_error @ txt_dots),
            session_get
              (build_params (ascii ''throw'') (sender_id ev) content (extract_image_url ev) p1)
              p1)"
  using assms get_user_count_frame(3) [of today "sender_id ev" p]
  by (auto simp add: handle_throw_def Let_def call_bottle_api_def handler_failed_def)

section \<open>The example states, evaluated\<close>

lemma days_differ: "day1 \<noteq> day2" "day2 \<noteq> day1" "u1 \<noteq> u2" "u2 \<noteq> u1"
  by (simp_all add: day1_def day2_def u1_def u2_def ascii_def)

lemma strip_examples:
  "strip (ascii ''k'') = ascii ''k''"
  "strip u1 = u1"
  "strip body_bad_key = body_bad_key"
  "strip body_request = body_request"
  by (simp_all add: strip_def isspace_def ascii_def u1_def body_bad_key_def body_request_def
      err_sentinel_def pfx_request_def)

lemma plugin_b_eval:
  "plugin_b =
     \<lparr>config = config_b (Some 1), session_timeout = 1, api_key = ascii ''k'',
      daily_pick_limit = 3, daily_throw_limit = 5, api_timeout = 3, config_saves = 0,
      user_data = store_b, disk = Content (store_to_json store_b), saves = 0,
      requests = []\<rparr>"
  by (simp add: plugin_b_def start_plugin_def blank_plugin_def init_config_def
      init_aiohttp_session_def config_b_def cfg_get_def strip_examples)

lemma plugin_b_fields:
  "user_data plugin_b = store_b"
  "last_reset_date store_b = day1"
  "users store_b = [(u1, \<lparr>pick = 3, throw = 1\<rparr>)]"
  "daily_pick_limit plugin_b = 3"
  "daily_throw_limit plugin_b = 5"
  "session_timeout plugin_b = 1"
  "api_timeout plugin_b = 3"
  "saves plugin_b = 0"
  "requests plugin_b = []"
  "disk plugin_b = Content (store_to_json store_b)"
  by (simp_all add: plugin_b_eval store_b_def)

lemma sender_event_of:
  "sender_id (event_of qq) = qq" "extract_image_url (event_of qq) = None"
  by (simp_all add: event_of_def extract_image_url_def)

lemma get_user_count_b:
  "get_user_count day1 u1 plugin_b = (\<lparr>pick = 3, throw = 1\<rparr>, plugin_b)"
  by (simp add: get_user_count_known plugin_b_fields)

text \<open>The quota access of \<^verbatim>\<open>u1\<close> on 2020-01-02: the store of the day before is reset
  and saved, then the zero record of \<^verbatim>\<open>u1\<close> is added and saved.\<close>

lemma quota_new_day_b:
  "get_user_count day2 u1 plugin_b =
     (\<lparr>pick = 0, throw = 0\<rparr>,
      plugin_b\<lparr>user_data := \<lparr>last_reset_date = day2, users = [(u1, \<lparr>pick = 0, throw = 0\<rparr>)]\<rparr>,
               disk := Content (store_to_json
                         \<lparr>last_reset_date = day2, users = [(u1, \<lparr>pick = 0, throw = 0\<rparr>)]\<rparr>),
               saves := 2\<rparr>)"
  by (simp add: get_user_count_def check_reset_data_new_day plugin_b_fields days_differ
      save_user_data_def save_user_data_sync_def Let_def store_overwrite)

lemma fresh_pair_b:
  "get_user_count day2 u1 plugin_b
     = (\<lparr>pick = 0, throw = 0\<rparr>, snd (get_user_count day2 u1 plugin_b))"
  by (simp add: quota_new_day_b)

section \<open>Claim C1: the date after a read of the store\<close>

text \<open>The three user commands go through \<open>get_user_count\<close>, which runs the reset check
  first: after each of them the stored date is the current date.\<close>

lemma handle_pick_date:
  "last_reset_date (user_data (snd (handle_pick today resp ev p))) = today"
  by (simp add: handle_pick_def Let_def split_def call_bottle_api_def session_get_def
      set_user_def save_user_data_def get_user_count_date split: sum.splits http_outcome.splits)

lemma handle_throw_date:
  "last_reset_date (user_data (snd (handle_throw today resp ev content p))) = today"
  by (simp add: handle_throw_def Let_def split_def call_bottle_api_def session_get_def
      set_user_def save_user_data_def get_user_count_date split: sum.splits http_outcome.splits)

lemma handle_my_stats_date:
  "last_reset_date (user_data (snd (handle_my_stats today ev p))) = today"
  by (simp add: handle_my_stats_def Let_def split_def get_user_count_date)

text \<open>The three admin commands read \<^verbatim>\<open>self.user_data\<close> directly. They do not look at
  the clock, so the model gives them no date; whatever date is stored stays stored.\<close>

lemma admin_query_state: "snd (admin_query ev target_qq p) = p"
  by (simp add: admin_query_def Let_def)

lemma admin_global_state: "snd (admin_global ev p) = p"
  by (simp add: admin_global_def Let_def)

lemma admin_reset_date:
  "last_reset_date (user_data (snd (admin_reset ev target_qq p)))
     = last_reset_date (user_data p)"
  by (simp add: admin_reset_def Let_def set_user_def save_user_data_def)

text \<open>
  Claim C1 says that after any read of the quota store, the admin query, reset and
  global statistics included, the stored date is the current date, the users mapping
  having been cleared on a mismatch. On the store of 2020-01-01 read on 2020-01-02 the
  personal statistics do reset it, but the admin commands do not: the admin query
  answers with the three picks and the one throw of the day before as the statistics of
  today and leaves the plugin as it was, the global statistics leave it as it was, and
  the admin reset zeroes the record of \<^verbatim>\<open>u1\<close> inside the old mapping under the old date.
\<close>

theorem admin_commands_skip_reset:
  "last_reset_date (user_data plugin_b) = day1 \<and> day1 \<noteq> day2 \<and>
   last_reset_date (user_data (snd (handle_my_stats day2 (event_of u2) plugin_b))) = day2 \<and>
   admin_query (event_of u2) u1 plugin_b
     = (plain_result (txt_query_head @ u1 @ txt_query_today
                      @ stats_lines \<lparr>pick = 3, throw = 1\<rparr> plugin_b), plugin_b) \<and>
   snd (admin_global (event_of u2) plugin_b) = plugin_b \<and>
   last_reset_date (user_data (snd (admin_reset (event_of u2) u1 plugin_b))) = day1 \<and>
   users (user_data (snd (admin_reset (event_of u2) u1 plugin_b)))
     = [(u1, \<lparr>pick = 0, throw = 0\<rparr>)]"
  by (simp add: plugin_b_fields days_differ handle_my_stats_date admin_global_state
      admin_query_def admin_reset_def set_user_def save_user_data_def strip_examples Let_def)

section \<open>Claim C2: parsing the response\<close>

text \<open>
  Claim C2 says that a trimmed body that starts with the error sentinel is surfaced as
  the remainder after the sentinel, and any other trimmed body as it is. The second half
  is \<open>parse_response_plain\<close>. The first half fails by one character: the sentinel has
  three code points and the source slices at four (\<open>parse_response_error\<close>). For the
  sentinel followed by a message of four characters, the remainder after the sentinel is
  the four characters, and the client returns the error text with the last three.
\<close>

theorem parse_response_drops_a_character:
  "startswith (strip body_bad_key) err_sentinel \<and>
   length err_sentinel = 3 \<and>
   drop (length err_sentinel) (strip body_bad_key) = [0x5BC6, 0x94A5, 0x65E0, 0x6548] \<and>
   parse_response body_bad_key = txt_api_error @ [0x94A5, 0x65E0, 0x6548]"
  by (simp add: parse_response_def strip_examples) (simp add: body_bad_key_def err_sentinel_def)

section \<open>Claim C3: the timeout of the request\<close>

text \<open>The session is built from the raw configuration value; the floor of 3 goes into
  \<^verbatim>\<open>self.api_timeout\<close>, which only the text of the timeout message of line 159 reads.\<close>

lemma init_session_timeout:
  "session_timeout (init_config (init_aiohttp_session p))
     = cfg_get (cfg_api_timeout (config p)) 8"
  by (simp add: init_config_def init_aiohttp_session_def Let_def)

lemma init_api_timeout:
  "api_timeout (init_config (init_aiohttp_session p))
     = max 3 (cfg_get (cfg_api_timeout (config p)) 8)"
  by (simp add: init_config_def init_aiohttp_session_def Let_def)

lemma init_limits:
  "1 \<le> daily_pick_limit (init_config p)"
  "1 \<le> daily_throw_limit (init_config p)"
  "3 \<le> api_timeout (init_config p)"
  by (simp_all add: init_config_def Let_def)

lemma request_timeout:
  "req_timeout (last (requests (snd (call_bottle_api action qq content image_url resp p))))
     = session_timeout p"
  by (simp add: call_bottle_api_state session_get_def)

text \<open>
  Claim C3 says that the timeout applied to the outbound request is the maximum of 3 and
  the configured value, 8 when there is none. With \<^verbatim>\<open>api_timeout\<close> configured as 1 the
  plugin starts with \<open>api_timeout\<close> 3 and a session timeout of 1, and the request of a
  pick is sent with timeout 1.
\<close>

theorem session_timeout_not_floored:
  "plugin_b = start_plugin (config_b (Some 1)) store_b \<and>
   session_timeout plugin_b = 1 \<and>
   api_timeout plugin_b = 3 \<and>
   map req_timeout
     (requests (snd (handle_pick day2 (Body (ascii ''hello'')) (event_of u1) plugin_b))) = [1]"
  apply (simp add: plugin_b_fields)
  apply (simp add: plugin_b_def [symmetric])
  apply (simp add: plugin_b_eval config_b_def)
  apply (simp add: handle_pick_def get_user_count_def check_reset_data_def save_user_data_def
      Let_def call_bottle_api_def session_get_def store_b_def days_differ event_of_def
      parse_response_def set_user_def split_def)
  done

section \<open>Claim C4: a load that fails\<close>

lemma default_json:
  "store_to_json (get_default_user_data today)
     = JObj [(ascii ''last_reset_date'', JStr today), (ascii ''users'', JObj [])]"
  by (simp add: store_to_json_def get_default_user_data_def)

text \<open>
  Claim C4 says that a load of a file in which \<^verbatim>\<open>last_reset_date\<close> or \<^verbatim>\<open>users\<close> is
  absent yields the default store and overwrites the file. The loader tests the date
  key only: a file with the date and without \<^verbatim>\<open>users\<close> is returned as it is and the
  file is left alone.
\<close>

theorem load_user_data_keeps_file_without_users:
  "py_in (ascii ''users'') file_no_users = Inr False \<and>
   load_user_data day2 (Content file_no_users) = (file_no_users, Content file_no_users) \<and>
   file_no_users \<noteq> store_to_json (get_default_user_data day2)"
  by (simp add: load_user_data_def py_in_def file_no_users_def default_json ascii_def)

text \<open>
  Claim C4, amended. When the file is missing, when its content does not parse, or when
  the test \<^verbatim>\<open>"last_reset_date" in data\<close> on the parsed value raises or is false (in
  particular for every JSON object without that key), loading yields the empty store
  with the date of today, and that store is written over the file.
\<close>

theorem load_user_data_fallback:
  "load_user_data today Missing
     = (store_to_json (get_default_user_data today),
        Content (store_to_json (get_default_user_data today))) \<and>
   load_user_data today Unreadable
     = (store_to_json (get_default_user_data today),
        Content (store_to_json (get_default_user_data today))) \<and>
   (py_in (ascii ''last_reset_date'') data \<noteq> Inr True \<longrightarrow>
      load_user_data today (Content data)
        = (store_to_json (get_default_user_data today),
           Content (store_to_json (get_default_user_data today)))) \<and>
   (ascii ''last_reset_date'' \<notin> fst ` set kvs \<longrightarrow>
      load_user_data today (Content (JObj kvs))
        = (store_to_json (get_default_user_data today),
           Content (store_to_json (get_default_user_data today)))) \<and>
   store_to_json (get_default_user_data today)
     = JObj [(ascii ''last_reset_date'', JStr today), (ascii ''users'', JObj [])]"
  by (auto simp add: load_user_data_def Let_def save_user_data_sync_def py_in_def default_json
      split: sum.splits bool.splits)

text \<open>The amended claim at a file of the old format, on 2020-01-02.\<close>

theorem load_user_data_fallback_witness:
  "ascii ''last_reset_date'' \<notin> fst ` set [(ascii ''users'', JObj [])] \<and>
   load_user_data day2 (Content file_old_format)
     = (JObj [(ascii ''last_reset_date'', JStr day2), (ascii ''users'', JObj [])],
        Content (JObj [(ascii ''last_reset_date'', JStr day2), (ascii ''users'', JObj [])]))"
  using load_user_data_fallback [of day2 file_old_format "[(ascii ''users'', JObj [])]"]
  by (simp add: file_old_format_def default_json) (simp add: ascii_def)

section \<open>Claim C5: the first quota access of a user\<close>

text \<open>
  Claim C5. After the daily-reset check, a user id that is not in the users mapping gets
  the record with both counters zero: that record is returned, it is appended to the
  mapping, and the store is saved once more than the reset check left it, the file
  holding the store with the new record. A user id that is in the mapping gets its
  record back, and the plugin is exactly as the reset check left it, so nothing is saved
  for it.
\<close>

theorem get_user_count_new_or_existing:
  "(map_of (users (user_data (check_reset_data today p))) qq = None \<longrightarrow>
      fst (get_user_count today qq p) = \<lparr>pick = 0, throw = 0\<rparr> \<and>
      users (user_data (snd (get_user_count today qq p)))
        = users (user_data (check_reset_data today p)) @ [(qq, \<lparr>pick = 0, throw = 0\<rparr>)] \<and>
      last_reset_date (user_data (snd (get_user_count today qq p))) = today \<and>
      saves (snd (get_user_count today qq p)) = Suc (saves (check_reset_data today p)) \<and>
      disk (snd (get_user_count today qq p))
        = Content (store_to_json (user_data (snd (get_user_count today qq p))))) \<and>
   (\<forall>r. map_of (users (user_data (check_reset_data today p))) qq = Some r \<longrightarrow>
      get_user_count today qq p = (r, check_reset_data today p))"
  by (simp add: get_user_count_def save_user_data_def save_user_data_sync_def Let_def
      update_absent check_reset_data_date)

text \<open>On 2020-01-01 user \<^verbatim>\<open>u2\<close> is new and \<^verbatim>\<open>u1\<close> is known.\<close>

theorem get_user_count_new_or_existing_witness:
  "map_of (users (user_data (check_reset_data day1 plugin_b))) u2 = None \<and>
   fst (get_user_count day1 u2 plugin_b) = \<lparr>pick = 0, throw = 0\<rparr> \<and>
   users (user_data (snd (get_user_count day1 u2 plugin_b)))
     = [(u1, \<lparr>pick = 3, throw = 1\<rparr>), (u2, \<lparr>pick = 0, throw = 0\<rparr>)] \<and>
   saves (snd (get_user_count day1 u2 plugin_b)) = 1 \<and>
   map_of (users (user_data (check_reset_data day1 plugin_b))) u1
     = Some \<lparr>pick = 3, throw = 1\<rparr> \<and>
   get_user_count day1 u1 plugin_b = (\<lparr>pick = 3, throw = 1\<rparr>, plugin_b)"
  using get_user_count_new_or_existing [of day1 plugin_b u2]
    get_user_count_new_or_existing [of day1 plugin_b u1]
  by (simp add: check_reset_data_same_day plugin_b_fields days_differ)

section \<open>Claim C6: a pick at the cap\<close>

text \<open>
  Claim C6. When the pick count that the command reads for the sender has reached the
  daily pick cap, the command replies with the limit text and returns the plugin the
  quota access produced: no request is added, and the sender's record is the one that
  was read. With a cap of at least 1, which \<open>init_limits\<close> shows every configured cap
  to be, such a count is a count of today that was already stored, and the whole
  plugin (store, file, saves and requests) is as it was before the command.
\<close>

theorem handle_pick_at_cap:
  assumes "get_user_count today (sender_id ev) p = (user_count, p1)"
    and "daily_pick_limit p \<le> pick user_count"
  shows "handle_pick today resp ev p =
           (plain_result (txt_pick_limit @ str_int (daily_pick_limit p) @ txt_limit_end), p1) \<and>
         requests p1 = requests p \<and>
         map_of (users (user_data p1)) (sender_id ev) = Some user_count \<and>
         (1 \<le> daily_pick_limit p \<longrightarrow> p1 = p)"
proof -
  have "p1 = p" if "1 \<le> daily_pick_limit p"
  proof -
    from that assms have "pick (fst (get_user_count today (sender_id ev) p)) \<noteq> 0" by simp
    then have "fst (get_user_count today (sender_id ev) p) \<noteq> \<lparr>pick = 0, throw = 0\<rparr>" by auto
    from get_user_count_nonzero(1) [OF this] assms(1) show ?thesis by simp
  qed
  then show ?thesis
    using handle_pick_limit [OF assms] get_user_count_result(1,3) [OF assms(1)] by simp
qed

text \<open>Scenario A with a cap of 3: \<^verbatim>\<open>u1\<close> has three picks on 2020-01-01.\<close>

theorem handle_pick_at_cap_witness:
  "get_user_count day1 (sender_id (event_of u1)) plugin_b
     = (\<lparr>pick = 3, throw = 1\<rparr>, plugin_b) \<and>
   daily_pick_limit plugin_b \<le> pick \<lparr>pick = 3, throw = 1\<rparr> \<and>
   handle_pick day1 (Body body_request) (event_of u1) plugin_b
     = (plain_result (txt_pick_limit @ str_int 3 @ txt_limit_end), plugin_b) \<and>
   requests plugin_b = []"
  using handle_pick_at_cap [of day1 "event_of u1" plugin_b "\<lparr>pick = 3, throw = 1\<rparr>" plugin_b
      "Body body_request"]
  by (simp add: sender_event_of get_user_count_b plugin_b_fields)

section \<open>Claim C7: an error answer of the remote API\<close>

lemma bad_key_facts:
  "startswith body_bad_key err_sentinel"
  "drop 4 body_bad_key = [0x94A5, 0x65E0, 0x6548]"
  by (simp_all add: body_bad_key_def err_sentinel_def)

text \<open>
  Claim C7 says that a pick or throw whose remote call returns text starting with the
  error sentinel replies with the API-error message and neither increments the user's
  counter nor persists any change to the store. The reply and the counter are as
  claimed, but the command does persist: every command starts with the quota access,
  and for \<^verbatim>\<open>u1\<close> picking on 2020-01-02 that access resets the store of 2020-01-01 and
  adds a zero record, saving twice, before the remote call is made. The file after the
  command is not the file before it.
\<close>

theorem remote_error_after_reset_persists:
  "startswith (strip body_bad_key) err_sentinel \<and>
   fst (handle_pick day2 (Body body_bad_key) (event_of u1) plugin_b)
     = plain_result (txt_pick_failed @ txt_api_error @ [0x94A5, 0x65E0, 0x6548]) \<and>
   users (user_data plugin_b) = [(u1, \<lparr>pick = 3, throw = 1\<rparr>)] \<and>
   users (user_data (snd (handle_pick day2 (Body body_bad_key) (event_of u1) plugin_b)))
     = [(u1, \<lparr>pick = 0, throw = 0\<rparr>)] \<and>
   saves plugin_b = 0 \<and>
   saves (snd (handle_pick day2 (Body body_bad_key) (event_of u1) plugin_b)) = 2 \<and>
   disk (snd (handle_pick day2 (Body body_bad_key) (event_of u1) plugin_b))
     = Content (store_to_json
         \<lparr>last_reset_date = day2, users = [(u1, \<lparr>pick = 0, throw = 0\<rparr>)]\<rparr>) \<and>
   disk (snd (handle_pick day2 (Body body_bad_key) (event_of u1) plugin_b)) \<noteq> disk plugin_b"
proof -
  have r: "fst (call_bottle_api (ascii ''pick'') u1 [] (Some [])
                  (Body body_bad_key) (snd (get_user_count day2 u1 plugin_b)))
             = Inr (txt_api_error @ [0x94A5, 0x65E0, 0x6548])"
    by (simp add: call_bottle_api_body parse_response_error strip_examples bad_key_facts)
  have "handle_pick day2 (Body body_bad_key) (event_of u1) plugin_b =
          (plain_result (txt_pick_failed @ txt_api_error @ [0x94A5, 0x65E0, 0x6548]),
           session_get
             (build_params (ascii ''pick'') (sender_id (event_of u1)) [] (Some [])
                (snd (get_user_count day2 u1 plugin_b)))
             (snd (get_user_count day2 u1 plugin_b)))"
    by (rule handle_pick_failed [where user_count = "\<lparr>pick = 0, throw = 0\<rparr>"])
       (simp_all add: sender_event_of fresh_pair_b [symmetric] plugin_b_fields r
          api_error_is_failure)
  then show ?thesis
    by (simp add: strip_examples bad_key_facts session_get_def quota_new_day_b
        plugin_b_fields store_to_json_def days_differ)
qed

text \<open>
  Claim C7, amended. Let the body of the response, trimmed, start with the error
  sentinel (by \<open>strip_keeps_sentinel\<close> this holds when the body itself starts with it).
  A pick by a sender under the pick cap, and a throw with text or an image by a sender
  under the throw cap, reply with the failure text followed by the client's API-error
  text, and return the plugin that the quota access at the start of the command
  produced, with the one request added: no counter is incremented, the sender's record
  is the one that was read, and nothing is saved after the quota access. What the
  command persists is what that quota access persists, a reset on a new date and the
  zero record of a new sender; for a sender already in the store of today it persists
  nothing, and store and file are those of before the command.
\<close>

theorem remote_error_leaves_counters:
  assumes "startswith (strip body) err_sentinel"
    and "get_user_count today (sender_id ev) p = (user_count, p1)"
  shows "(pick user_count < daily_pick_limit p \<longrightarrow>
            handle_pick today (Body body) ev p
              = (plain_result (txt_pick_failed @ txt_api_error @ drop 4 (strip body)),
                 session_get (build_params (ascii ''pick'') (sender_id ev) [] (Some []) p1) p1)) \<and>
         (throw user_count < daily_throw_limit p \<and>
          (content \<noteq> [] \<or> truthy (extract_image_url ev)) \<longrightarrow>
            handle_throw today (Body body) ev content p
              = (plain_result (txt_throw_failed @ txt_api_error @ drop 4 (strip body)),
                 session_get
                   (build_params (ascii ''throw'') (sender_id ev) content
                      (extract_image_url ev) p1) p1)) \<and>
         same_store (session_get params p1) p1 \<and>
         map_of (users (user_data (session_get params p1))) (sender_id ev) = Some user_count \<and>
         (last_reset_date (user_data p) = today \<and>
          map_of (users (user_data p)) (sender_id ev) \<noteq> None \<longrightarrow> p1 = p)"
proof (intro conjI impI)
  assume lt: "pick user_count < daily_pick_limit p"
  have r: "fst (call_bottle_api (ascii ''pick'') (sender_id ev) [] (Some []) (Body body) p1)
      = Inr (txt_api_error @ drop 4 (strip body))"
    by (simp add: call_bottle_api_body parse_response_error [OF assms(1)])
  show "handle_pick today (Body body) ev p
      = (plain_result (txt_pick_failed @ txt_api_error @ drop 4 (strip body)),
         session_get (build_params (ascii ''pick'') (sender_id ev) [] (Some []) p1) p1)"
    by (rule handle_pick_failed [OF assms(2) lt r api_error_is_failure])
next
  assume h: "throw user_count < daily_throw_limit p \<and>
     (content \<noteq> [] \<or> truthy (extract_image_url ev))"
  then have lt: "throw user_count < daily_throw_limit p"
    and ne: "content \<noteq> [] \<or> truthy (extract_image_url ev)" by simp_all
  have r: "fst (call_bottle_api (ascii ''throw'') (sender_id ev) content (extract_image_url ev)
        (Body body) p1) = Inr (txt_api_error @ drop 4 (strip body))"
    by (simp add: call_bottle_api_body parse_response_error [OF assms(1)])
  show "handle_throw today (Body body) ev content p
      = (plain_result (txt_throw_failed @ txt_api_error @ drop 4 (strip body)),
         session_get
           (build_params (ascii ''throw'') (sender_id ev) content (extract_image_url ev) p1) p1)"
    by (rule handle_throw_failed [OF assms(2) lt ne r api_error_is_failure])
next
  show "same_store (session_get params p1) p1"
    by (rule same_store_session_get)
  show "map_of (users (user_data (session_get params p1))) (sender_id ev) = Some user_count"
    using get_user_count_result(1) [OF assms(2)] by (simp add: session_get_def)
next
  assume "last_reset_date (user_data p) = today \<and>
    map_of (users (user_data p)) (sender_id ev) \<noteq> None"
  then show "p1 = p" using get_user_count_result(4) [OF assms(2)] by simp
qed

text \<open>A throw of \<^verbatim>\<open>u1\<close> on 2020-01-01 and a pick of \<^verbatim>\<open>u1\<close> on 2020-01-02, both
  answered with the error body.\<close>

theorem remote_error_leaves_counters_witness:
  "startswith (strip body_bad_key) err_sentinel \<and>
   throw \<lparr>pick = 3, throw = 1\<rparr> < daily_throw_limit plugin_b \<and>
   handle_throw day1 (Body body_bad_key) (event_of u1) (ascii ''hi'') plugin_b
     = (plain_result (txt_throw_failed @ txt_api_error @ [0x94A5, 0x65E0, 0x6548]),
        session_get (build_params (ascii ''throw'') u1 (ascii ''hi'') None plugin_b) plugin_b) \<and>
   pick \<lparr>pick = 0, throw = 0\<rparr> < daily_pick_limit plugin_b \<and>
   fst (handle_pick day2 (Body body_bad_key) (event_of u1) plugin_b)
     = plain_result (txt_pick_failed @ txt_api_error @ [0x94A5, 0x65E0, 0x6548])"
  using remote_error_leaves_counters [of body_bad_key day1 "event_of u1" plugin_b
      "\<lparr>pick = 3, throw = 1\<rparr>" plugin_b "ascii ''hi''"]
    remote_error_leaves_counters [of body_bad_key day2 "event_of u1" plugin_b
      "\<lparr>pick = 0, throw = 0\<rparr>" "snd (get_user_count day2 u1 plugin_b)"]
    fresh_pair_b
  by (simp add: strip_examples bad_key_facts sender_event_of get_user_count_b plugin_b_fields)
     (simp add: ascii_def)

section \<open>Claim C8: a throw with nothing to throw\<close>

text \<open>
  Claim C8. A throw by a sender under the throw cap, with empty text and no usable image
  in the message, replies with the validation text and returns the plugin that the quota
  access produced: no request is sent, and the sender's record, with its throw count,
  is the one that was read. For a sender already in the store of today that plugin is
  the plugin before the command.
\<close>

theorem handle_throw_without_content:
  assumes "get_user_count today (sender_id ev) p = (user_count, p1)"
    and "throw user_count < daily_throw_limit p"
    and "content = []" and "\<not> truthy (extract_image_url ev)"
  shows "handle_throw today resp ev content p = (plain_result txt_throw_invalid, p1) \<and>
         requests p1 = requests p \<and>
         map_of (users (user_data p1)) (sender_id ev) = Some user_count \<and>
         (last_reset_date (user_data p) = today \<and>
          map_of (users (user_data p)) (sender_id ev) \<noteq> None \<longrightarrow> p1 = p)"
  using handle_throw_invalid [OF assms] get_user_count_result [OF assms(1)] by simp

text \<open>Scenario D: \<^verbatim>\<open>u1\<close> throws an empty message on 2020-01-01.\<close>

theorem handle_throw_without_content_witness:
  "get_user_count day1 (sender_id (event_of u1)) plugin_b
     = (\<lparr>pick = 3, throw = 1\<rparr>, plugin_b) \<and>
   throw \<lparr>pick = 3, throw = 1\<rparr> < daily_throw_limit plugin_b \<and>
   \<not> truthy (extract_image_url (event_of u1)) \<and>
   handle_throw day1 (Body body_request) (event_of u1) [] plugin_b
     = (plain_result txt_throw_invalid, plugin_b) \<and>
   requests plugin_b = []"
  using handle_throw_without_content [of day1 "event_of u1" plugin_b
      "\<lparr>pick = 3, throw = 1\<rparr>" plugin_b "[]" "Body body_request"]
  by (simp add: sender_event_of get_user_count_b plugin_b_fields truthy_def)

section \<open>Claim C9: the daily reset is idempotent\<close>

text \<open>
  Claim C9. Running the daily-reset check a second time with the same current date
  changes nothing: the plugin after the second run, with its store, its file and its
  count of saves, is the plugin after the first run.
\<close>

theorem check_reset_data_idem:
  "check_reset_data today (check_reset_data today p) = check_reset_data today p"
  by (rule check_reset_data_same_day) (rule check_reset_data_date)

text \<open>The store of 2020-01-01 checked twice on 2020-01-02: one save in all.\<close>

theorem check_reset_data_idem_witness:
  "check_reset_data day2 (check_reset_data day2 plugin_b) = check_reset_data day2 plugin_b \<and>
   saves (check_reset_data day2 (check_reset_data day2 plugin_b)) = Suc (saves plugin_b)"
  using check_reset_data_idem [of day2 plugin_b]
  by (simp add: check_reset_data_new_day plugin_b_fields days_differ)

section \<open>Claim C10: results that look like failures\<close>

lemma request_body_facts:
  "startswith body_request pfx_request"
  "\<not> startswith body_request err_sentinel"
  by (simp_all add: body_request_def pfx_request_def err_sentinel_def)

text \<open>
  Claim C10 says that when the string returned by the bottle client begins with one of
  the three failure prefixes, a genuine payload included, the handlers reply with a
  failure message and leave the user's counters and the persisted store unchanged. The
  reply is as claimed, but counters and file are not always left as they were: for
  \<^verbatim>\<open>u1\<close> picking on 2020-01-02 a bottle whose text begins with the second prefix, the
  quota access at the start of the command resets the store of 2020-01-01, so the
  counters of \<^verbatim>\<open>u1\<close> go from three picks and one throw to zero, and the file is
  rewritten twice.
\<close>

theorem prefixed_payload_after_reset_persists:
  "startswith body_request pfx_request \<and>
   fst (call_bottle_api (ascii ''pick'') u1 [] (Some []) (Body body_request)
          (snd (get_user_count day2 u1 plugin_b))) = Inr body_request \<and>
   fst (handle_pick day2 (Body body_request) (event_of u1) plugin_b)
     = plain_result (txt_pick_failed @ body_request) \<and>
   map_of (users (user_data plugin_b)) u1 = Some \<lparr>pick = 3, throw = 1\<rparr> \<and>
   map_of (users (user_data (snd (handle_pick day2 (Body body_request) (event_of u1) plugin_b))))
     u1 = Some \<lparr>pick = 0, throw = 0\<rparr> \<and>
   saves plugin_b = 0 \<and>
   saves (snd (handle_pick day2 (Body body_request) (event_of u1) plugin_b)) = 2 \<and>
   disk (snd (handle_pick day2 (Body body_request) (event_of u1) plugin_b)) \<noteq> disk plugin_b"
proof -
  have r: "fst (call_bottle_api (ascii ''pick'') u1 [] (Some [])
                  (Body body_request) (snd (get_user_count day2 u1 plugin_b)))
             = Inr body_request"
    by (simp add: call_bottle_api_body parse_response_plain strip_examples request_body_facts)
  have "handle_pick day2 (Body body_request) (event_of u1) plugin_b =
          (plain_result (txt_pick_failed @ body_request),
           session_get
             (build_params (ascii ''pick'') (sender_id (event_of u1)) [] (Some [])
                (snd (get_user_count day2 u1 plugin_b)))
             (snd (get_user_count day2 u1 plugin_b)))"
    by (rule handle_pick_failed [where user_count = "\<lparr>pick = 0, throw = 0\<rparr>"])
       (simp_all add: sender_event_of fresh_pair_b [symmetric] plugin_b_fields r
          failure_prefix_cases request_body_facts)
  then show ?thesis
    using r
    by (simp add: request_body_facts session_get_def quota_new_day_b sender_event_of
        plugin_b_fields store_to_json_def days_differ)
qed

text \<open>
  Claim C10, amended. Let the string that the bottle client returns begin with one of
  the three failure prefixes; by \<open>call_bottle_api_returns\<close> it is the parsed text of a
  2xx response, an error body or a genuine payload. A pick by a sender under the pick
  cap, and a throw with text or an image by a sender under the throw cap, reply with the
  failure text followed by that string, and return the plugin that the quota access at
  the start of the command produced, with the one request added: no counter is
  incremented and nothing is saved after the quota access. Counters and file are those
  the quota access left, which resets on a new date and adds the zero record of a new
  sender; for a sender already in the store of today they are those of before the
  command.
\<close>

theorem prefixed_result_is_failure:
  assumes "startswith api_result pfx_api_error \<or> startswith api_result pfx_request \<or>
           startswith api_result pfx_call"
    and "get_user_count today (sender_id ev) p = (user_count, p1)"
  shows "(pick user_count < daily_pick_limit p \<and>
          fst (call_bottle_api (ascii ''pick'') (sender_id ev) [] (Some []) resp p1)
            = Inr api_result
          \<longrightarrow>
            handle_pick today resp ev p
              = (plain_result (txt_pick_failed @ api_result),
                 session_get (build_params (ascii ''pick'') (sender_id ev) [] (Some []) p1) p1)) \<and>
         (throw user_count < daily_throw_limit p \<and>
          (content \<noteq> [] \<or> truthy (extract_image_url ev)) \<and>
          fst (call_bottle_api (ascii ''throw'') (sender_id ev) content (extract_image_url ev)
                 resp p1) = Inr api_result
          \<longrightarrow>
            handle_throw today resp ev content p
              = (plain_result (txt_throw_failed @ api_result),
                 session_get
                   (build_params (ascii ''throw'') (sender_id ev) content
                      (extract_image_url ev) p1) p1)) \<and>
         same_store (session_get params p1) p1 \<and>
         map_of (users (user_data (session_get params p1))) (sender_id ev) = Some user_count \<and>
         (last_reset_date (user_data p) = today \<and>
          map_of (users (user_data p)) (sender_id ev) \<noteq> None \<longrightarrow> p1 = p)"
proof (intro conjI impI)
  have f: "startswith_any api_result failure_prefixes"
    using assms(1) by (simp add: failure_prefix_cases)
  {
    assume h: "pick user_count < daily_pick_limit p \<and>
       fst (call_bottle_api (ascii ''pick'') (sender_id ev) [] (Some []) resp p1)
         = Inr api_result"
    then have lt: "pick user_count < daily_pick_limit p"
      and r: "fst (call_bottle_api (ascii ''pick'') (sender_id ev) [] (Some []) resp p1)
         = Inr api_result" by simp_all
    show "handle_pick today resp ev p
        = (plain_result (txt_pick_failed @ api_result),
           session_get (build_params (ascii ''pick'') (sender_id ev) [] (Some []) p1) p1)"
      by (rule handle_pick_failed [OF assms(2) lt r f])
  }
  {
    assume h: "throw user_count < daily_throw_limit p \<and>
       (content \<noteq> [] \<or> truthy (extract_image_url ev)) \<and>
       fst (call_bottle_api (ascii ''throw'') (sender_id ev) content (extract_image_url ev)
              resp p1) = Inr api_result"
    then have lt: "throw user_count < daily_throw_limit p"
      and ne: "content \<noteq> [] \<or> truthy (extract_image_url ev)"
      and r: "fst (call_bottle_api (ascii ''throw'') (sender_id ev) content
                     (extract_image_url ev) resp p1) = Inr api_result" by simp_all
    show "handle_throw today resp ev content p
        = (plain_result (txt_throw_failed @ api_result),
           session_get
             (build_params (ascii ''throw'') (sender_id ev) content (extract_image_url ev) p1)
             p1)"
      by (rule handle_throw_failed [OF assms(2) lt ne r f])
  }
  show "same_store (session_get params p1) p1"
    by (rule same_store_session_get)
  show "map_of (users (user_data (session_get params p1))) (sender_id ev) = Some user_count"
    using get_user_count_result(1) [OF assms(2)] by (simp add: session_get_def)
  {
    assume "last_reset_date (user_data p) = today \<and>
      map_of (users (user_data p)) (sender_id ev) \<noteq> None"
    then show "p1 = p" using get_user_count_result(4) [OF assms(2)] by simp
  }
qed

text \<open>A bottle whose text begins with the second prefix is no error body, the client
  returns it as it is, and both commands answer it with the failure text.\<close>

theorem prefixed_result_is_failure_witness:
  "startswith body_request pfx_request \<and>
   parse_response body_request = body_request \<and>
   throw \<lparr>pick = 3, throw = 1\<rparr> < daily_throw_limit plugin_b \<and>
   handle_throw day1 (Body body_request) (event_of u1) (ascii ''hi'') plugin_b
     = (plain_result (txt_throw_failed @ body_request),
        session_get (build_params (ascii ''throw'') u1 (ascii ''hi'') None plugin_b) plugin_b) \<and>
   pick \<lparr>pick = 0, throw = 0\<rparr> < daily_pick_limit plugin_b \<and>
   fst (handle_pick day2 (Body body_request) (event_of u1) plugin_b)
     = plain_result (txt_pick_failed @ body_request)"
  using prefixed_result_is_failure [of body_request day1 "event_of u1" plugin_b
      "\<lparr>pick = 3, throw = 1\<rparr>" plugin_b "Body body_request" "ascii ''hi''"]
    prefixed_result_is_failure [of body_request day2 "event_of u1" plugin_b
      "\<lparr>pick = 0, throw = 0\<rparr>" "snd (get_user_count day2 u1 plugin_b)"
      "Body body_request"]
    fresh_pair_b
  by (simp add: request_body_facts sender_event_of get_user_count_b plugin_b_fields
      call_bottle_api_body parse_response_plain strip_examples)
     (simp add: ascii_def)

end
